theory Spec2Isabelle
  imports Complex_Main "HOL-Library.Log_Nat"
begin

section \<open>The calculator of \<^verbatim>\<open>Calculator.tsx\<close>\<close>

text \<open>
  The repository holds two React components, \<^verbatim>\<open>src/Calculator.tsx\<close> and a second,
  near-identical file.  Each one defines an evaluator \<^verbatim>\<open>executeOperation\<close>, a helper
  \<^verbatim>\<open>compute\<close> and a reducer \<^verbatim>\<open>calculatorReducer\<close> over a state of two strings and an
  optional operation.  The embedding below follows the first file; the evaluator of the
  second file is embedded next to it.

  The code runs on the platform's \<^verbatim>\<open>number\<close> type and on three built-ins:
  \<^verbatim>\<open>parseFloat\<close>, \<^verbatim>\<open>isNaN\<close> and \<^verbatim>\<open>Number.prototype.toString\<close>.  They are
  modelled first, after ECMA-262.
\<close>

subsection \<open>The platform: numbers\<close>

text \<open>
  A \<^verbatim>\<open>number\<close> is an IEEE 754 binary64 value: the single NaN, the two infinities, or a
  finite value given by its sign (\<open>True\<close> is negative) and its magnitude, a rational.
  \<open>Finite False 0\<close> is \<open>+0\<close> and \<open>Finite True 0\<close> is \<open>-0\<close>.  The magnitudes that occur
  are those that \<open>round_magnitude\<close> returns.
\<close>

datatype number = NaN | Infinity bool | Finite bool rat

definition pow2 :: "int \<Rightarrow> rat" where
  "pow2 e = (if 0 \<le> e then 2 ^ nat e else 1 / 2 ^ nat (- e))"

definition pow10 :: "int \<Rightarrow> rat" where
  "pow10 e = (if 0 \<le> e then 10 ^ nat e else 1 / 10 ^ nat (- e))"

text \<open>For \<open>q > 0\<close>, the integer \<open>b\<close> with \<open>2 ^ b \<le> q < 2 ^ (b + 1)\<close>.\<close>

definition floor_log2 :: "rat \<Rightarrow> int" where
  "floor_log2 q =
     (let (p, d) = quotient_of q; b = bitlen p - bitlen d
      in if pow2 b \<le> q then b else b - 1)"

text \<open>
  Rounding of a positive rational to the nearest binary64 magnitude, ties to the even
  significand: 53 bits of significand, the exponent of the last place not below
  \<open>-1074\<close> (below the normal range the spacing stays \<open>2 ^ -1074\<close>).  The result may be
  \<open>0\<close> (underflow) or reach \<open>2 ^ 1024\<close> (overflow).
\<close>

definition round_magnitude :: "rat \<Rightarrow> rat" where
  "round_magnitude q =
     (let e = max (floor_log2 q - 52) (- 1074);
          t = q / pow2 e;
          m = \<lfloor>t\<rfloor>;
          f = t - of_int m;
          m' = (if 1 / 2 < f \<or> (f = 1 / 2 \<and> odd m) then m + 1 else m)
      in of_int m' * pow2 e)"

definition round_signed :: "bool \<Rightarrow> rat \<Rightarrow> number" where
  "round_signed s q =
     (let v = round_magnitude q in if pow2 1024 \<le> v then Infinity s else Finite s v)"

text \<open>The Number value for a real \<open>x\<close> (ECMA-262, 6.1.6.1): zero is \<open>+0\<close>.\<close>

definition number_value :: "rat \<Rightarrow> number" where
  "number_value x = (if x = 0 then Finite False 0 else round_signed (x < 0) \<bar>x\<bar>)"

definition signed :: "bool \<Rightarrow> rat \<Rightarrow> rat" where
  "signed s m = (if s then - m else m)"

text \<open>The operators \<^verbatim>\<open>+\<close>, \<^verbatim>\<open>-\<close>, \<^verbatim>\<open>*\<close> and \<^verbatim>\<open>/\<close> on numbers.\<close>

fun number_add :: "number \<Rightarrow> number \<Rightarrow> number" where
  "number_add NaN y = NaN"
| "number_add x NaN = NaN"
| "number_add (Infinity s) (Infinity t) = (if s = t then Infinity s else NaN)"
| "number_add (Infinity s) (Finite t n) = Infinity s"
| "number_add (Finite s m) (Infinity t) = Infinity t"
| "number_add (Finite s m) (Finite t n) =
     (if m = 0 \<and> n = 0 then Finite (s \<and> t) 0
      else number_value (signed s m + signed t n))"

fun number_negate :: "number \<Rightarrow> number" where
  "number_negate NaN = NaN"
| "number_negate (Infinity s) = Infinity (\<not> s)"
| "number_negate (Finite s m) = Finite (\<not> s) m"

definition number_subtract :: "number \<Rightarrow> number \<Rightarrow> number" where
  "number_subtract x y = number_add x (number_negate y)"

fun number_multiply :: "number \<Rightarrow> number \<Rightarrow> number" where
  "number_multiply NaN y = NaN"
| "number_multiply x NaN = NaN"
| "number_multiply (Infinity s) (Infinity t) = Infinity (s \<noteq> t)"
| "number_multiply (Infinity s) (Finite t n) = (if n = 0 then NaN else Infinity (s \<noteq> t))"
| "number_multiply (Finite s m) (Infinity t) = (if m = 0 then NaN else Infinity (s \<noteq> t))"
| "number_multiply (Finite s m) (Finite t n) =
     (if m = 0 \<or> n = 0 then Finite (s \<noteq> t) 0 else round_signed (s \<noteq> t) (m * n))"

fun number_divide :: "number \<Rightarrow> number \<Rightarrow> number" where
  "number_divide NaN y = NaN"
| "number_divide x NaN = NaN"
| "number_divide (Infinity s) (Infinity t) = NaN"
| "number_divide (Infinity s) (Finite t n) = Infinity (s \<noteq> t)"
| "number_divide (Finite s m) (Infinity t) = Finite (s \<noteq> t) 0"
| "number_divide (Finite s m) (Finite t n) =
     (if n = 0 then (if m = 0 then NaN else Infinity (s \<noteq> t))
      else if m = 0 then Finite (s \<noteq> t) 0
      else round_signed (s \<noteq> t) (m / n))"

definition isNaN :: "number \<Rightarrow> bool" where
  "isNaN x = (x = NaN)"

subsection \<open>The platform: \<^verbatim>\<open>parseFloat\<close>\<close>

text \<open>
  A string is a list of code units; the model has the code units below 256.  Those of
  them that \<^verbatim>\<open>parseFloat\<close> skips at the start (white space and line terminators) are
  TAB, LF, VT, FF, CR, SP and NBSP.
\<close>

definition is_space :: "char \<Rightarrow> bool" where
  "is_space c = (of_char c \<in> {9, 10, 11, 12, 13, 32, 160 :: nat})"

definition is_digit :: "char \<Rightarrow> bool" where
  "is_digit c = (c \<in> set ''0123456789'')"

definition digit_value :: "char \<Rightarrow> int" where
  "digit_value c = of_char c - 48"

definition digits_value :: "string \<Rightarrow> int" where
  "digits_value ds = foldl (\<lambda>acc c. 10 * acc + digit_value c) 0 ds"

text \<open>
  The exponent part \<^verbatim>\<open>e\<close> or \<^verbatim>\<open>E\<close>, an optional sign, one digit at least.  Where the
  digits are missing the literal ends before the \<^verbatim>\<open>e\<close>, and the exponent is \<open>0\<close>.
\<close>

fun exponent_part :: "string \<Rightarrow> int" where
  "exponent_part [] = 0"
| "exponent_part (c # r) =
     (if c = CHR ''e'' \<or> c = CHR ''E'' then
        (let (neg, d) = (case r of
                           [] \<Rightarrow> (False, r)
                         | x # r' \<Rightarrow> if x = CHR ''-'' then (True, r')
                                     else if x = CHR ''+'' then (False, r') else (False, r));
             ds = takeWhile is_digit d
         in if ds = [] then 0
            else if neg then - digits_value ds else digits_value ds)
      else 0)"

text \<open>
  \<^verbatim>\<open>parseFloat\<close> (ECMA-262, 19.2.4): the longest prefix of the trimmed string that is a
  \<^verbatim>\<open>StrDecimalLiteral\<close> is read, the rest is ignored; with no such prefix the result is
  NaN.  The value is rounded to the nearest number.  \<open>unsigned_literal\<close> reads what
  follows the optional sign: \<^verbatim>\<open>Infinity\<close>, or digits with an optional fraction and
  exponent, where the digits before or those after the point may be missing, not both.
\<close>

definition unsigned_literal :: "bool \<Rightarrow> string \<Rightarrow> number" where
  "unsigned_literal neg u =
     (if take 8 u = ''Infinity'' then Infinity neg
      else
        (let ip = takeWhile is_digit u;
             r1 = dropWhile is_digit u;
             (fp, r2) = (case r1 of
                           [] \<Rightarrow> ([], r1)
                         | x # r \<Rightarrow> if x = CHR ''.''
                                    then (takeWhile is_digit r, dropWhile is_digit r)
                                    else ([], r1))
         in if ip = [] \<and> fp = [] then NaN
            else
              (let mv = of_int (digits_value (ip @ fp))
                          * pow10 (exponent_part r2 - int (length fp))
               in if mv = 0 then Finite neg 0 else round_signed neg mv)))"

definition parseFloat :: "string \<Rightarrow> number" where
  "parseFloat str =
     (let trimmed = dropWhile is_space str
      in case trimmed of
           [] \<Rightarrow> unsigned_literal False trimmed
         | x # r \<Rightarrow> if x = CHR ''-'' then unsigned_literal True r
                    else if x = CHR ''+'' then unsigned_literal False r
                    else unsigned_literal False trimmed)"

text \<open>
  Where \<^verbatim>\<open>parseFloat\<close> finds a number, in words of the string alone: \<open>unsigned_part\<close> is
  what follows the white space and the optional sign, and a literal starts there when
  it begins with \<^verbatim>\<open>Infinity\<close>, with a digit, or with a point and a digit.
\<close>

definition strip_sign :: "string \<Rightarrow> string" where
  "strip_sign s =
     (case s of
        [] \<Rightarrow> []
      | x # r \<Rightarrow> if x = CHR ''-'' \<or> x = CHR ''+'' then r else s)"

definition unsigned_part :: "string \<Rightarrow> string" where
  "unsigned_part str = strip_sign (dropWhile is_space str)"

definition starts_literal :: "string \<Rightarrow> bool" where
  "starts_literal u =
     (take 8 u = ''Infinity'' \<or>
      (case u of
         [] \<Rightarrow> False
       | x # r \<Rightarrow> is_digit x \<or> (x = CHR ''.'' \<and> (case r of [] \<Rightarrow> False | y # r' \<Rightarrow> is_digit y))))"

text \<open>
  The spec's side of claim C3, which speaks of an operand that is ``empty or a
  non-numeric string'': a string is numeric when the whole of it is one
  \<^verbatim>\<open>StrDecimalLiteral\<close>, an optional sign and then \<^verbatim>\<open>Infinity\<close> or digits with an
  optional fraction and an optional exponent, with nothing before it and nothing
  after it.  This definition follows the spec's words, not the code; the code only ever
  asks \<^verbatim>\<open>parseFloat\<close>.
\<close>

definition whole_exponent :: "string \<Rightarrow> bool" where
  "whole_exponent r2 =
     (case r2 of
        [] \<Rightarrow> False
      | c # r \<Rightarrow>
          (c = CHR ''e'' \<or> c = CHR ''E'') \<and> strip_sign r \<noteq> []
          \<and> list_all is_digit (strip_sign r))"

definition whole_literal :: "string \<Rightarrow> bool" where
  "whole_literal u =
     (u = ''Infinity'' \<or>
      (let ip = takeWhile is_digit u;
           r1 = dropWhile is_digit u;
           (fp, r2) = (case r1 of
                         [] \<Rightarrow> ([], r1)
                       | x # r \<Rightarrow> if x = CHR ''.''
                                  then (takeWhile is_digit r, dropWhile is_digit r)
                                  else ([], r1))
       in (ip \<noteq> [] \<or> fp \<noteq> []) \<and> (r2 = [] \<or> whole_exponent r2)))"

definition spec_numeric_string :: "string \<Rightarrow> bool" where
  "spec_numeric_string str = whole_literal (strip_sign str)"

subsection \<open>The platform: \<^verbatim>\<open>Number.prototype.toString\<close>\<close>

definition digit_char :: "nat \<Rightarrow> char" where
  "digit_char d = ''0123456789'' ! d"

text \<open>The decimal digits of an integer \<open>n \<ge> 0\<close>.\<close>

function digit_chars :: "int \<Rightarrow> string" where
  "digit_chars n =
     (if n < 10 then [digit_char (nat n)]
      else digit_chars (n div 10) @ [digit_char (nat (n mod 10))])"
  by pat_completeness auto
termination
  by (relation "measure nat") auto

declare digit_chars.simps [simp del]

text \<open>For \<open>q > 0\<close>, the integer \<open>n\<close> with \<open>10 ^ (n - 1) \<le> q < 10 ^ n\<close>.\<close>

definition decimal_exponent :: "rat \<Rightarrow> int" where
  "decimal_exponent q =
     (if 1 \<le> q then int (length (digit_chars \<lfloor>q\<rfloor>))
      else (let d = int (length (digit_chars \<lfloor>1 / q\<rfloor>))
            in if q = pow10 (1 - d) then 2 - d else 1 - d))"

text \<open>
  \<^verbatim>\<open>Number::toString\<close> (ECMA-262, 6.1.6.1.20) asks for integers \<open>n\<close>, \<open>k\<close> and \<open>s\<close> with
  \<open>k \<ge> 1\<close>, \<open>10 ^ (k - 1) \<le> s < 10 ^ k\<close>, such that \<open>s * 10 ^ (n - k)\<close> rounds to the
  number and \<open>k\<close> is as small as possible; among several \<open>s\<close> the one closest to the
  number, and the even one of two equally close.  \<open>shortest_digits q n0 k\<close> searches
  \<open>k\<close> upwards: with \<open>n0 = decimal_exponent q\<close> the only candidates with \<open>k\<close> digits are
  the two integers around \<open>q / 10 ^ (n0 - k)\<close>.  Seventeen digits identify every binary64
  value, so the search stops there with the closer candidate.  The result is \<open>(n, s)\<close>.
\<close>

definition rounds_to :: "rat \<Rightarrow> int \<Rightarrow> nat \<Rightarrow> int \<Rightarrow> bool" where
  "rounds_to q n0 k s = (round_signed False (of_int s * pow10 (n0 - int k)) = Finite False q)"

definition closer :: "rat \<Rightarrow> int \<Rightarrow> int" where
  "closer t lo =
     (let below = t - of_int lo; above = of_int (lo + 1) - t
      in if below < above \<or> (below = above \<and> even lo) then lo else lo + 1)"

definition scientific :: "int \<Rightarrow> nat \<Rightarrow> int \<Rightarrow> int \<times> int" where
  "scientific n0 k s = (if s = 10 ^ k then (n0 + 1, 10 ^ (k - 1)) else (n0, s))"

function shortest_digits :: "rat \<Rightarrow> int \<Rightarrow> nat \<Rightarrow> int \<times> int" where
  "shortest_digits q n0 k =
     (let t = q * pow10 (int k - n0);
          lo = \<lfloor>t\<rfloor>
      in if 17 \<le> k then scientific n0 k (closer t lo)
         else if rounds_to q n0 k lo \<and> rounds_to q n0 k (lo + 1)
           then scientific n0 k (closer t lo)
         else if rounds_to q n0 k lo then scientific n0 k lo
         else if rounds_to q n0 k (lo + 1) then scientific n0 k (lo + 1)
         else shortest_digits q n0 (Suc k))"
  by pat_completeness auto
termination
  by (relation "measure (\<lambda>(q, n0, k). 17 - k)") auto

declare shortest_digits.simps [simp del]

text \<open>The layout of the \<open>k\<close> digits \<open>ds\<close> with decimal exponent \<open>n\<close> (steps 6 to 12).\<close>

definition layout :: "int \<Rightarrow> string \<Rightarrow> string" where
  "layout n ds =
     (let k = int (length ds) in
      if - 5 \<le> n \<and> n \<le> 21 then
        (if k \<le> n then ds @ replicate (nat (n - k)) CHR ''0''
         else if 0 < n then take (nat n) ds @ ''.'' @ drop (nat n) ds
         else ''0.'' @ replicate (nat (- n)) CHR ''0'' @ ds)
      else
        (let e = n - 1;
             es = (if e < 0 then ''-'' else ''+'') @ digit_chars \<bar>e\<bar>
         in if k = 1 then ds @ ''e'' @ es
            else take 1 ds @ ''.'' @ drop 1 ds @ ''e'' @ es))"

definition toString_positive :: "rat \<Rightarrow> string" where
  "toString_positive q =
     (let (n, s) = shortest_digits q (decimal_exponent q) 1 in layout n (digit_chars s))"

text \<open>\<^verbatim>\<open>x.toString(10)\<close>, and the string that \<^verbatim>\<open>+\<close> makes of a number operand.\<close>

fun toString :: "number \<Rightarrow> string" where
  "toString NaN = ''NaN''"
| "toString (Infinity s) = (if s then ''-Infinity'' else ''Infinity'')"
| "toString (Finite s m) =
     (if m = 0 then ''0'' else (if s then ''-'' else []) @ toString_positive m)"

subsection \<open>Operations and the evaluator\<close>

text \<open>
  The enum \<^verbatim>\<open>Operation\<close>, its members \<^verbatim>\<open>add\<close>, \<^verbatim>\<open>subtract\<close>, \<^verbatim>\<open>divide\<close> and
  \<^verbatim>\<open>multiply\<close> in the order of the source (capitalised here: \<open>divide\<close> is a constant of
  HOL), and the string each member stands for at run time (\<^verbatim>\<open>'+'\<close>, \<^verbatim>\<open>'-'\<close>, the
  division sign U+00F7, \<^verbatim>\<open>'*'\<close>).
\<close>

datatype Operation = Add | Subtract | Divide | Multiply

fun enum_value :: "Operation \<Rightarrow> string" where
  "enum_value Add = ''+''"
| "enum_value Subtract = ''-''"
| "enum_value Divide = [char_of (247 :: nat)]"
| "enum_value Multiply = ''*''"

text \<open>
  \<^verbatim>\<open>executeOperation\<close> of \<^verbatim>\<open>src/Calculator.tsx\<close>.  The \<^verbatim>\<open>switch\<close> tries its cases in
  order and has no \<^verbatim>\<open>default\<close>: with no case matching, control leaves the function and
  the call yields \<^verbatim>\<open>undefined\<close>, which is \<open>None\<close> here.
\<close>

definition executeOperation :: "Operation \<Rightarrow> number \<Rightarrow> number \<Rightarrow> number option" where
  "executeOperation op a b =
     (if op = Add then Some (number_add a b)
      else if op = Subtract then Some (number_subtract a b)
      else if op = Divide then Some (number_divide a b)
      else if op = Multiply then Some (number_multiply a b)
      else None)"

text \<open>\<^verbatim>\<open>executeOperation\<close> of the second file of the repository.\<close>

definition executeOperation2 :: "Operation \<Rightarrow> number \<Rightarrow> number \<Rightarrow> number option" where
  "executeOperation2 op a b =
     (if op = Add then Some (number_add a b)
      else if op = Subtract then Some (number_subtract a b)
      else if op = Divide then Some (number_multiply a b)
      else if op = Multiply then Some (number_divide a b)
      else None)"

subsection \<open>Actions and state\<close>

text \<open>
  The union \<^verbatim>\<open>CalculatorAction\<close>.  \<open>action_type\<close> is the field \<^verbatim>\<open>type\<close> of an action,
  \<open>action_digit\<close> the field \<^verbatim>\<open>digit\<close> of an \<^verbatim>\<open>AppendNumberAction\<close> and
  \<open>action_operation\<close> the field \<^verbatim>\<open>operation\<close> of a \<^verbatim>\<open>ChooseOperation\<close>.
\<close>

datatype CalculatorAction =
    AppendNumberAction (action_digit: number)
  | DeleteDigitAction
  | AddDecimalPointAction
  | ChooseOperation (action_operation: Operation)
  | ComputeAction
  | ClearAction

fun action_type :: "CalculatorAction \<Rightarrow> string" where
  "action_type (AppendNumberAction d) = ''appendNumber''"
| "action_type DeleteDigitAction = ''deleteDigit''"
| "action_type AddDecimalPointAction = ''addDecimalPoint''"
| "action_type (ChooseOperation op) = ''chooseOperation''"
| "action_type ComputeAction = ''compute''"
| "action_type ClearAction = ''clear''"

record CalculatorState =
  currentOperand :: string
  previousOperand :: string
  operation :: "Operation option"

definition DEFAULT_CALCULATOR_STATE :: CalculatorState where
  "DEFAULT_CALCULATOR_STATE =
     \<lparr>currentOperand = [], previousOperand = [], operation = None\<rparr>"

text \<open>
  What a call can end in, other than a state: a \<^verbatim>\<open>TypeError\<close> thrown (a method called
  on \<^verbatim>\<open>undefined\<close>), or \<^verbatim>\<open>undefined\<close> returned where a state is expected.
\<close>

datatype failure = TypeError | ReturnsUndefined

text \<open>
  \<^verbatim>\<open>compute\<close>.  The two early returns hand the state back as it is.  The result of the
  evaluator receives \<^verbatim>\<open>.toString(10)\<close>, which throws on \<^verbatim>\<open>undefined\<close>.
\<close>

definition compute :: "CalculatorState \<Rightarrow> failure + CalculatorState" where
  "compute state =
     (let prev = parseFloat (previousOperand state);
          current = parseFloat (currentOperand state)
      in if isNaN prev \<or> isNaN current then Inr state
         else case operation state of
                None \<Rightarrow> Inr state
              | Some op \<Rightarrow>
                  (case executeOperation op prev current of
                     None \<Rightarrow> Inl TypeError
                   | Some result \<Rightarrow>
                       Inr (state\<lparr>currentOperand := toString result,
                                  operation := None,
                                  previousOperand := []\<rparr>)))"

text \<open>
  The test \<^verbatim>\<open>if (state.operation)\<close>: \<^verbatim>\<open>undefined\<close> and the empty string are falsy,
  every other string is truthy.
\<close>

fun truthy :: "Operation option \<Rightarrow> bool" where
  "truthy None = False"
| "truthy (Some op) = (enum_value op \<noteq> [])"

text \<open>
  \<^verbatim>\<open>calculatorReducer\<close>.  The \<^verbatim>\<open>switch\<close> on \<^verbatim>\<open>action.type\<close> has no \<^verbatim>\<open>default\<close>
  either.  \<^verbatim>\<open>slice(0, -1)\<close> drops the last code unit and leaves the empty string empty;
  \<^verbatim>\<open>+\<close> with a string on the left appends the string of the number on the right.
\<close>

definition calculatorReducer ::
  "CalculatorState \<Rightarrow> CalculatorAction \<Rightarrow> failure + CalculatorState" where
  "calculatorReducer state action =
     (if action_type action = ''appendNumber'' then
        Inr (state\<lparr>currentOperand := currentOperand state @ toString (action_digit action)\<rparr>)
      else if action_type action = ''deleteDigit'' then
        Inr (state\<lparr>currentOperand := butlast (currentOperand state)\<rparr>)
      else if action_type action = ''addDecimalPoint'' then
        Inr (state\<lparr>currentOperand :=
                     (if CHR ''.'' \<in> set (currentOperand state) then currentOperand state
                      else currentOperand state @ ''.'')\<rparr>)
      else if action_type action = ''chooseOperation'' then
        (case (if truthy (operation state) then compute state else Inr state) of
           Inl e \<Rightarrow> Inl e
         | Inr interimState \<Rightarrow>
             Inr (interimState\<lparr>previousOperand := currentOperand interimState,
                               currentOperand := [],
                               operation := Some (action_operation action)\<rparr>))
      else if action_type action = ''compute'' then compute state
      else if action_type action = ''clear'' then Inr DEFAULT_CALCULATOR_STATE
      else Inl ReturnsUndefined)"

text \<open>
  \<^verbatim>\<open>React.useReducer\<close> keeps the state and replaces it by the reducer's result at each
  dispatched action; a failure ends the run.
\<close>

fun dispatch :: "CalculatorState \<Rightarrow> CalculatorAction list \<Rightarrow> failure + CalculatorState" where
  "dispatch state [] = Inr state"
| "dispatch state (action # actions) =
     (case calculatorReducer state action of
        Inl e \<Rightarrow> Inl e
      | Inr state' \<Rightarrow> dispatch state' actions)"

text \<open>The payload of the ten digit buttons: the numbers \<open>0\<close> to \<open>9\<close>.\<close>

fun single_digit :: "CalculatorAction \<Rightarrow> bool" where
  "single_digit (AppendNumberAction d) = (d \<in> set (map (\<lambda>n. Finite False (of_nat n)) [0..<10]))"
| "single_digit _ = True"

text \<open>
  The runs in which an operand has been entered whenever an operation is chosen: no
  \<^verbatim>\<open>chooseOperation\<close> meets an empty \<^verbatim>\<open>currentOperand\<close>.
\<close>

fun operand_entered :: "CalculatorState \<Rightarrow> CalculatorAction list \<Rightarrow> bool" where
  "operand_entered state [] = True"
| "operand_entered state (action # actions) =
     ((action_type action \<noteq> ''chooseOperation'' \<or> currentOperand state \<noteq> []) \<and>
      (case calculatorReducer state action of
         Inl e \<Rightarrow> True
       | Inr state' \<Rightarrow> operand_entered state' actions))"

section \<open>Properties\<close>

subsection \<open>The binary exponent\<close>

text \<open>
  \<open>floor_log2\<close> is the binary exponent of a positive rational.  Overflow can
  therefore be read off the exponent of the rounded magnitude, which is the equation
  used to evaluate \<open>round_signed\<close>.
\<close>

lemma pow2_powi: "pow2 e = 2 powi e"
  by (simp add: pow2_def power_int_def inverse_eq_divide power_one_over field_simps)

lemma pow2_pos: "0 < pow2 e"
  by (simp add: pow2_powi)

lemma pow2_add: "pow2 (a + b) = pow2 a * pow2 b"
  by (simp add: pow2_powi power_int_add)

lemma pow2_mono: "a \<le> b \<Longrightarrow> pow2 a \<le> pow2 b"
  by (simp add: pow2_powi power_int_increasing)

lemma pow2_strict_mono: "a < b \<Longrightarrow> pow2 a < pow2 b"
  by (simp add: pow2_powi power_int_strict_increasing)

lemma pow2_nat: "0 \<le> e \<Longrightarrow> pow2 e = of_int (2 ^ nat e)"
  by (simp add: pow2_def)

lemma bitlen_pow2_bounds:
  assumes "0 < x"
  shows "pow2 (bitlen x - 1) \<le> of_int x" and "of_int x < pow2 (bitlen x)"
proof -
  from assms have b: "1 \<le> bitlen x"
    using bitlen_eq_zero_iff [of x] bitlen_nonneg [of x] by linarith
  have "(2::int) ^ nat (bitlen x - 1) \<le> x" and "x < 2 ^ nat (bitlen x)"
    using bitlen_bounds [OF assms] by simp_all
  then have "(of_int (2 ^ nat (bitlen x - 1)) :: rat) \<le> of_int x"
    and "(of_int x :: rat) < of_int (2 ^ nat (bitlen x))"
    by (simp_all only: of_int_le_iff of_int_less_iff)
  then show "pow2 (bitlen x - 1) \<le> of_int x" and "of_int x < pow2 (bitlen x)"
    using b by (simp_all add: pow2_nat)
qed

lemma floor_log2_bounds:
  assumes "0 < q"
  shows "pow2 (floor_log2 q) \<le> q \<and> q < pow2 (floor_log2 q + 1)"
proof -
  obtain p d where pd: "quotient_of q = (p, d)" by (cases "quotient_of q")
  then have d: "0 < d" by (rule quotient_of_denom_pos)
  have q: "q = of_int p / of_int d" using pd by (rule quotient_of_div)
  with assms d have p: "0 < p" by (simp add: zero_less_divide_iff)
  define b where "b = bitlen p - bitlen d"
  have D: "(0::rat) < of_int d" using d by simp
  have upper: "q < pow2 (b + 1)"
  proof -
    have "of_int p < pow2 (bitlen p)" using p by (rule bitlen_pow2_bounds)
    also have "pow2 (bitlen p) = pow2 (b + 1) * pow2 (bitlen d - 1)"
      by (simp add: b_def flip: pow2_add)
    also have "\<dots> \<le> pow2 (b + 1) * of_int d"
      using bitlen_pow2_bounds(1) [OF d] pow2_pos [of "b + 1"] by simp
    finally show ?thesis using D by (simp add: q pos_divide_less_eq)
  qed
  have lower: "pow2 (b - 1) \<le> q"
  proof -
    have "pow2 (b - 1) * of_int d \<le> pow2 (b - 1) * pow2 (bitlen d)"
      using bitlen_pow2_bounds(2) [OF d] pow2_pos [of "b - 1"] by simp
    also have "\<dots> = pow2 (bitlen p - 1)"
      by (simp add: b_def flip: pow2_add)
    also have "\<dots> \<le> of_int p" using p by (rule bitlen_pow2_bounds)
    finally show ?thesis using D by (simp add: q pos_le_divide_eq)
  qed
  show ?thesis
    using upper lower pd by (simp add: floor_log2_def b_def Let_def)
qed

lemma floor_log2_nonpos: "q \<le> 0 \<Longrightarrow> floor_log2 q < 0"
proof -
  assume q0: "q \<le> 0"
  obtain p d where pd: "quotient_of q = (p, d)" by (cases "quotient_of q")
  then have d: "0 < d" by (rule quotient_of_denom_pos)
  have q: "q = of_int p / of_int d" using pd by (rule quotient_of_div)
  with q0 d have p: "p \<le> 0" by (simp add: divide_le_0_iff)
  then have "bitlen p = 0" by (simp add: bitlen_eq_zero_iff)
  moreover have "0 < bitlen d" using d bitlen_eq_zero_iff [of d] bitlen_nonneg [of d] by linarith
  ultimately show ?thesis using pd by (simp add: floor_log2_def Let_def)
qed

lemma overflow_iff: "pow2 1024 \<le> v \<longleftrightarrow> 1024 \<le> floor_log2 v"
proof (cases "0 < v")
  case True
  note b = floor_log2_bounds [OF True]
  show ?thesis
  proof
    assume "pow2 1024 \<le> v"
    with b have "pow2 1024 < pow2 (floor_log2 v + 1)" by linarith
    then have "\<not> floor_log2 v + 1 \<le> 1024" using pow2_mono [of "floor_log2 v + 1" 1024] by linarith
    then show "1024 \<le> floor_log2 v" by linarith
  next
    assume "1024 \<le> floor_log2 v"
    then have "pow2 1024 \<le> pow2 (floor_log2 v)" by (rule pow2_mono)
    with b show "pow2 1024 \<le> v" by linarith
  qed
next
  case False
  then have "floor_log2 v < 0" by (simp add: floor_log2_nonpos)
  moreover have "\<not> pow2 1024 \<le> v" using False pow2_pos [of 1024] by linarith
  ultimately show ?thesis by simp
qed

lemma round_signed_code [code]:
  "round_signed s q =
     (let v = round_magnitude q in if 1024 \<le> floor_log2 v then Infinity s else Finite s v)"
  by (simp add: round_signed_def overflow_iff)

subsection \<open>The platform at work\<close>

text \<open>
  Rounding is that of binary64: \<open>0.1 + 0.2\<close> is not the number \<open>0.3\<close>.  \<^verbatim>\<open>parseFloat\<close> reads
  a numeric prefix, and the string of a number is the shortest one that reads back.
\<close>

lemma binary64_rounding:
  "number_add (parseFloat ''0.1'') (parseFloat ''0.2'') \<noteq> parseFloat ''0.3''"
  by code_simp

lemma parseFloat_prefix: "parseFloat ''12abc'' = Finite False 12"
  by code_simp

lemma toString_shortest: "toString (parseFloat ''0.1'') = ''0.1''"
  by code_simp

lemma toString_exponent: "toString (parseFloat ''1e21'') = ''1e+21''"
  by code_simp

subsection \<open>Decimal points in the string of a number\<close>

lemma digit_char_not_dot: "d < 10 \<Longrightarrow> digit_char d \<noteq> CHR ''.''"
proof -
  assume "d < 10"
  then have "''0123456789'' ! d \<in> set ''0123456789''"
    by (intro nth_mem) simp
  then show ?thesis
    unfolding digit_char_def by auto
qed

lemma digit_chars_no_dot: "CHR ''.'' \<notin> set (digit_chars n)"
proof (induction n rule: digit_chars.induct)
  case (1 n)
  show ?case
  proof (cases "n < 10")
    case True
    then have "nat n < 10" by simp
    with True show ?thesis
      using digit_char_not_dot [of "nat n"] by (subst digit_chars.simps) auto
  next
    case False
    have "nat (n mod 10) < 10" by simp
    with False "1" show ?thesis
      using digit_char_not_dot [of "nat (n mod 10)"] by (subst digit_chars.simps) auto
  qed
qed

lemma count_take_dot: "x \<notin> set ds \<Longrightarrow> count_list (take n ds) x = 0"
  by (auto simp: count_list_0_iff dest: in_set_takeD)

lemma count_drop_dot: "x \<notin> set ds \<Longrightarrow> count_list (drop n ds) x = 0"
  by (auto simp: count_list_0_iff dest: in_set_dropD)

lemma layout_dots:
  assumes "CHR ''.'' \<notin> set ds"
  shows "count_list (layout n ds) CHR ''.'' \<le> 1"
  using assms digit_chars_no_dot [of "\<bar>n - 1\<bar>"]
  by (simp add: layout_def Let_def count_take_dot count_drop_dot)

lemma toString_positive_dots: "count_list (toString_positive q) CHR ''.'' \<le> 1"
  using layout_dots [OF digit_chars_no_dot]
  by (auto simp: toString_positive_def split: prod.split)

lemma toString_dots: "count_list (toString x) CHR ''.'' \<le> 1"
  using toString_positive_dots by (cases x) auto

lemma count_butlast: "count_list (butlast xs) x \<le> count_list xs x"
proof (cases "xs = []")
  case False
  then have "count_list xs x = count_list (butlast xs @ [last xs]) x" by simp
  then show ?thesis by (simp del: append_butlast_last_id)
qed simp

lemma digit_strings:
  "map toString (map (\<lambda>n. Finite False (of_nat n)) [0..<10]) =
     map (\<lambda>c. [c]) ''0123456789''"
  by code_simp

lemma single_digit_no_dot:
  assumes "d \<in> set (map (\<lambda>n. Finite False (of_nat n)) [0..<10])"
  shows "CHR ''.'' \<notin> set (toString d)"
proof -
  from assms have "toString d \<in> toString ` set (map (\<lambda>n. Finite False (of_nat n)) [0..<10])"
    by (rule imageI)
  then have "toString d \<in> set (map toString (map (\<lambda>n. Finite False (of_nat n)) [0..<10]))"
    by (simp only: set_map)
  then show ?thesis
    unfolding digit_strings by auto
qed

lemma digit_chars_nonempty: "digit_chars n \<noteq> []"
  by (subst digit_chars.simps) simp

lemma layout_nonempty: "ds \<noteq> [] \<Longrightarrow> layout n ds \<noteq> []"
  by (simp add: layout_def Let_def)

lemma toString_nonempty: "toString x \<noteq> []"
  using layout_nonempty [OF digit_chars_nonempty]
  by (cases x) (auto simp: toString_positive_def split: prod.split)

subsection \<open>Strings that are no number\<close>

text \<open>
  \<^verbatim>\<open>parseFloat\<close> gives NaN exactly where no literal starts after the white space and
  the sign; a string that is numeric as a whole is never such.
\<close>

lemma round_signed_not_NaN: "round_signed s q \<noteq> NaN"
  by (simp add: round_signed_def Let_def)

lemma literal_digits_iff:
  "(takeWhile is_digit u = []
     \<and> fst (case dropWhile is_digit u of
               [] \<Rightarrow> ([], dropWhile is_digit u)
             | x # r \<Rightarrow> if x = CHR ''.''
                        then (takeWhile is_digit r, dropWhile is_digit r)
                        else ([], dropWhile is_digit u)) = [])
   \<longleftrightarrow> \<not> (case u of
            [] \<Rightarrow> False
          | x # r \<Rightarrow> is_digit x \<or> (x = CHR ''.'' \<and> (case r of [] \<Rightarrow> False | y # r' \<Rightarrow> is_digit y)))"
proof (cases u)
  case Nil
  then show ?thesis by simp
next
  case (Cons x r)
  show ?thesis
  proof (cases "is_digit x")
    case True
    with Cons show ?thesis by simp
  next
    case False
    with Cons show ?thesis by (cases r) auto
  qed
qed

lemma unsigned_literal_NaN_iff: "unsigned_literal neg u = NaN \<longleftrightarrow> \<not> starts_literal u"
  using literal_digits_iff [of u]
  by (simp add: unsigned_literal_def starts_literal_def Let_def case_prod_beta
      round_signed_not_NaN)

lemma parseFloat_NaN_iff: "parseFloat str = NaN \<longleftrightarrow> \<not> starts_literal (unsigned_part str)"
  by (cases "dropWhile is_space str")
    (simp_all add: parseFloat_def unsigned_part_def strip_sign_def unsigned_literal_NaN_iff
      del: dropWhile_eq_Nil_conv)

lemma digit_not_space: "is_digit x \<Longrightarrow> \<not> is_space x"
  by (auto simp: is_digit_def is_space_def)

lemma whole_literal_starts:
  assumes "whole_literal u"
  shows "starts_literal u"
proof -
  from assms have "u = ''Infinity'' \<or> \<not> (takeWhile is_digit u = []
     \<and> fst (case dropWhile is_digit u of
               [] \<Rightarrow> ([], dropWhile is_digit u)
             | x # r \<Rightarrow> if x = CHR ''.''
                        then (takeWhile is_digit r, dropWhile is_digit r)
                        else ([], dropWhile is_digit u)) = [])"
    unfolding whole_literal_def Let_def case_prod_beta by blast
  then show ?thesis
    using literal_digits_iff [of u] by (auto simp: starts_literal_def)
qed

lemma starts_literal_head:
  assumes "starts_literal (x # r)"
  shows "x = CHR ''I'' \<or> is_digit x \<or> x = CHR ''.''"
  using assms by (auto simp: starts_literal_def)

lemma spec_numeric_starts:
  assumes "spec_numeric_string str"
  shows "starts_literal (unsigned_part str)"
proof (cases str)
  case Nil
  with assms show ?thesis
    using whole_literal_starts [of "[]"]
    by (simp add: spec_numeric_string_def unsigned_part_def strip_sign_def)
next
  case (Cons x r)
  from assms have start: "starts_literal (strip_sign str)"
    unfolding spec_numeric_string_def by (rule whole_literal_starts)
  have "\<not> is_space x"
  proof (cases "x = CHR ''-'' \<or> x = CHR ''+''")
    case True
    then show ?thesis by (auto simp: is_space_def)
  next
    case False
    with Cons have "strip_sign str = x # r" by (simp add: strip_sign_def)
    with start have "x = CHR ''I'' \<or> is_digit x \<or> x = CHR ''.''"
      using starts_literal_head by simp
    then show ?thesis
      using digit_not_space [of x] by (auto simp: is_space_def)
  qed
  with Cons have "unsigned_part str = strip_sign str"
    by (simp add: unsigned_part_def)
  with start show ?thesis by simp
qed

subsection \<open>The reducer, case by case\<close>

lemma executeOperation_Some: "\<exists>result. executeOperation op a b = Some result"
  by (cases op) (simp_all add: executeOperation_def)

lemma enum_value_truthy: "truthy (Some op)"
  by (cases op) simp_all

lemma compute_unchanged:
  assumes "isNaN (parseFloat (previousOperand state)) \<or> isNaN (parseFloat (currentOperand state))
             \<or> operation state = None"
  shows "compute state = Inr state"
  using assms by (auto simp: compute_def Let_def)

lemma compute_result:
  assumes "\<not> isNaN (parseFloat (previousOperand state))"
    and "\<not> isNaN (parseFloat (currentOperand state))"
    and "operation state = Some op"
    and "executeOperation op (parseFloat (previousOperand state))
           (parseFloat (currentOperand state)) = Some result"
  shows "compute state =
           Inr \<lparr>currentOperand = toString result, previousOperand = [], operation = None\<rparr>"
  using assms by (cases state) (simp add: compute_def Let_def)

lemma compute_cases:
  obtains "compute state = Inr state"
  | result where "compute state =
      Inr \<lparr>currentOperand = toString result, previousOperand = [], operation = None\<rparr>"
proof (cases "isNaN (parseFloat (previousOperand state))
    \<or> isNaN (parseFloat (currentOperand state)) \<or> operation state = None")
  case True
  then show ?thesis using that(1) compute_unchanged by blast
next
  case False
  then obtain op where op: "operation state = Some op" by auto
  obtain result where "executeOperation op (parseFloat (previousOperand state))
           (parseFloat (currentOperand state)) = Some result"
    using executeOperation_Some by blast
  with False op show ?thesis using that(2) compute_result by blast
qed

lemma reducer_appendNumber:
  "calculatorReducer state (AppendNumberAction d) =
     Inr (state\<lparr>currentOperand := currentOperand state @ toString d\<rparr>)"
  by (simp add: calculatorReducer_def)

lemma reducer_deleteDigit:
  "calculatorReducer state DeleteDigitAction =
     Inr (state\<lparr>currentOperand := butlast (currentOperand state)\<rparr>)"
  by (simp add: calculatorReducer_def)

lemma reducer_addDecimalPoint:
  "calculatorReducer state AddDecimalPointAction =
     Inr (state\<lparr>currentOperand :=
                  (if CHR ''.'' \<in> set (currentOperand state) then currentOperand state
                   else currentOperand state @ ''.'')\<rparr>)"
  by (simp add: calculatorReducer_def)

lemma reducer_chooseOperation:
  "calculatorReducer state (ChooseOperation op) =
     (case (if truthy (operation state) then compute state else Inr state) of
        Inl e \<Rightarrow> Inl e
      | Inr interimState \<Rightarrow>
          Inr \<lparr>currentOperand = [], previousOperand = currentOperand interimState,
               operation = Some op\<rparr>)"
  by (cases state) (simp add: calculatorReducer_def split: sum.split)

lemma reducer_compute: "calculatorReducer state ComputeAction = compute state"
  by (simp add: calculatorReducer_def)

lemma reducer_clear: "calculatorReducer state ClearAction = Inr DEFAULT_CALCULATOR_STATE"
  by (simp add: calculatorReducer_def)

lemmas reducer_cases =
  reducer_appendNumber reducer_deleteDigit reducer_addDecimalPoint reducer_chooseOperation
  reducer_compute reducer_clear

subsection \<open>Invariants of a run\<close>

lemma dispatch_invariant:
  assumes "P state"
    and "\<And>s a s'. P s \<Longrightarrow> Q a \<Longrightarrow> calculatorReducer s a = Inr s' \<Longrightarrow> P s'"
    and "\<forall>a \<in> set actions. Q a"
    and "dispatch state actions = Inr state'"
  shows "P state'"
  using assms(1,3,4)
proof (induction actions arbitrary: state)
  case Nil
  then show ?case by simp
next
  case (Cons a actions)
  from Cons.prems(3) obtain s where s: "calculatorReducer state a = Inr s"
    and rest: "dispatch s actions = Inr state'"
    by (auto split: sum.splits)
  from Cons.prems(1,2) s have "P s" using assms(2) by auto
  with Cons.IH rest Cons.prems(2) show ?case by auto
qed

lemma reducer_keeps_pending:
  assumes "previousOperand s \<noteq> [] \<longrightarrow> operation s \<noteq> None"
    and "calculatorReducer s a = Inr s'"
  shows "previousOperand s' \<noteq> [] \<longrightarrow> operation s' \<noteq> None"
proof (cases a)
  case ComputeAction
  with assms show ?thesis
    by (cases s rule: compute_cases) (auto simp: reducer_compute)
next
  case (ChooseOperation op)
  with assms(2) show ?thesis
    by (auto simp: reducer_chooseOperation split: sum.splits)
qed (use assms in \<open>auto simp: reducer_cases DEFAULT_CALCULATOR_STATE_def\<close>)

lemma reducer_keeps_equivalence:
  assumes "operation s \<noteq> None \<longleftrightarrow> previousOperand s \<noteq> []"
    and "action_type a \<noteq> ''chooseOperation'' \<or> currentOperand s \<noteq> []"
    and "calculatorReducer s a = Inr s'"
  shows "operation s' \<noteq> None \<longleftrightarrow> previousOperand s' \<noteq> []"
proof (cases a)
  case ComputeAction
  with assms(1,3) show ?thesis
    by (cases s rule: compute_cases) (auto simp: reducer_compute)
next
  case (ChooseOperation op)
  with assms(2) have cur: "currentOperand s \<noteq> []" by simp
  show ?thesis
  proof (cases "truthy (operation s)")
    case True
    with assms(3) ChooseOperation cur show ?thesis
      using toString_nonempty
      by (cases s rule: compute_cases) (auto simp: reducer_chooseOperation)
  next
    case False
    with assms(3) ChooseOperation cur show ?thesis
      by (auto simp: reducer_chooseOperation)
  qed
qed (use assms(1,3) in \<open>auto simp: reducer_cases DEFAULT_CALCULATOR_STATE_def\<close>)

lemma operand_entered_equivalence:
  assumes "operation s \<noteq> None \<longleftrightarrow> previousOperand s \<noteq> []"
    and "operand_entered s actions"
    and "dispatch s actions = Inr s'"
  shows "operation s' \<noteq> None \<longleftrightarrow> previousOperand s' \<noteq> []"
  using assms
proof (induction actions arbitrary: s)
  case Nil
  then show ?case by simp
next
  case (Cons a actions)
  from Cons.prems(3) obtain t where t: "calculatorReducer s a = Inr t"
    and rest: "dispatch t actions = Inr s'"
    by (auto split: sum.splits)
  from Cons.prems(2) t have guard: "action_type a \<noteq> ''chooseOperation'' \<or> currentOperand s \<noteq> []"
    and entered: "operand_entered t actions"
    by simp_all
  from Cons.prems(1) guard t have "operation t \<noteq> None \<longleftrightarrow> previousOperand t \<noteq> []"
    by (rule reducer_keeps_equivalence)
  from Cons.IH [OF this entered rest] show ?case .
qed

lemma reducer_keeps_one_dot:
  assumes "count_list (currentOperand s) CHR ''.'' \<le> 1"
    and "single_digit a"
    and "calculatorReducer s a = Inr s'"
  shows "count_list (currentOperand s') CHR ''.'' \<le> 1"
proof (cases a)
  case (AppendNumberAction d)
  with assms(2) have "CHR ''.'' \<notin> set (toString d)"
    by (intro single_digit_no_dot) simp
  with assms(1,3) AppendNumberAction show ?thesis
    by (auto simp: reducer_appendNumber)
next
  case DeleteDigitAction
  with assms(1,3) show ?thesis
    using count_butlast [of "currentOperand s" "CHR ''.''"]
    by (auto simp: reducer_deleteDigit)
next
  case AddDecimalPointAction
  with assms(1,3) show ?thesis
    by (auto simp: reducer_addDecimalPoint)
next
  case (ChooseOperation op)
  with assms(3) show ?thesis
    by (auto simp: reducer_chooseOperation split: sum.splits)
next
  case ComputeAction
  with assms(1,3) show ?thesis
    using toString_dots
    by (cases s rule: compute_cases) (auto simp: reducer_compute)
next
  case ClearAction
  with assms(3) show ?thesis
    by (auto simp: reducer_clear DEFAULT_CALCULATOR_STATE_def)
qed

subsection \<open>The claims\<close>

text \<open>
  Claim C1.  For all numbers \<open>a\<close> and \<open>b\<close> the evaluator of \<^verbatim>\<open>src/Calculator.tsx\<close> returns
  \<open>a + b\<close> for \<open>Add\<close>, \<open>a - b\<close> for \<open>Subtract\<close>, \<open>a * b\<close> for \<open>Multiply\<close> and \<open>a / b\<close>
  for \<open>Divide\<close>, the operators being those of the number type.  The first operand is the
  left one: \<open>10 - 4\<close> is \<open>6\<close> and \<open>10 / 4\<close> is \<open>2.5\<close>; and \<^verbatim>\<open>compute\<close> passes
  \<^verbatim>\<open>previousOperand\<close> first and \<^verbatim>\<open>currentOperand\<close> second.
\<close>

theorem executeOperation_textbook:
  "executeOperation Add a b = Some (number_add a b)
   \<and> executeOperation Subtract a b = Some (number_subtract a b)
   \<and> executeOperation Multiply a b = Some (number_multiply a b)
   \<and> executeOperation Divide a b = Some (number_divide a b)
   \<and> executeOperation Subtract (Finite False 10) (Finite False 4) = Some (Finite False 6)
   \<and> executeOperation Divide (Finite False 10) (Finite False 4) = Some (Finite False (5 / 2))
   \<and> compute \<lparr>currentOperand = ''4'', previousOperand = ''10'', operation = Some Subtract\<rparr>
       = Inr \<lparr>currentOperand = ''6'', previousOperand = [], operation = None\<rparr>
   \<and> compute \<lparr>currentOperand = ''4'', previousOperand = ''10'', operation = Some Divide\<rparr>
       = Inr \<lparr>currentOperand = ''2.5'', previousOperand = [], operation = None\<rparr>"
proof -
  have tags: "executeOperation Add a b = Some (number_add a b)"
    "executeOperation Subtract a b = Some (number_subtract a b)"
    "executeOperation Multiply a b = Some (number_multiply a b)"
    "executeOperation Divide a b = Some (number_divide a b)"
    by (simp_all add: executeOperation_def)
  have sub: "executeOperation Subtract (Finite False 10) (Finite False 4) = Some (Finite False 6)"
    by code_simp
  have div: "executeOperation Divide (Finite False 10) (Finite False 4)
      = Some (Finite False (5 / 2))"
    by code_simp
  have csub: "compute \<lparr>currentOperand = ''4'', previousOperand = ''10'', operation = Some Subtract\<rparr>
       = Inr \<lparr>currentOperand = ''6'', previousOperand = [], operation = None\<rparr>"
    by code_simp
  have cdiv: "compute \<lparr>currentOperand = ''4'', previousOperand = ''10'', operation = Some Divide\<rparr>
       = Inr \<lparr>currentOperand = ''2.5'', previousOperand = [], operation = None\<rparr>"
    by code_simp
  from tags sub div csub cdiv show ?thesis by (intro conjI)
qed

text \<open>
  Claim C2.  The evaluators of the two files agree on \<open>Add\<close> and \<open>Subtract\<close>; the second
  file's \<open>Divide\<close> is the first file's \<open>Multiply\<close> (\<open>a * b\<close>) and its \<open>Multiply\<close> the first
  file's \<open>Divide\<close> (\<open>a / b\<close>).  The two do differ: on \<open>Divide\<close>, \<open>10\<close> and \<open>4\<close> the first
  file gives \<open>2.5\<close> and the second \<open>40\<close>.
\<close>

theorem executeOperation_copies_swap:
  "executeOperation2 Add a b = executeOperation Add a b
   \<and> executeOperation2 Subtract a b = executeOperation Subtract a b
   \<and> executeOperation2 Divide a b = executeOperation Multiply a b
   \<and> executeOperation2 Multiply a b = executeOperation Divide a b
   \<and> executeOperation2 Divide a b = Some (number_multiply a b)
   \<and> executeOperation2 Multiply a b = Some (number_divide a b)
   \<and> executeOperation Divide (Finite False 10) (Finite False 4) = Some (Finite False (5 / 2))
   \<and> executeOperation2 Divide (Finite False 10) (Finite False 4) = Some (Finite False 40)"
proof -
  have "executeOperation Divide (Finite False 10) (Finite False 4) = Some (Finite False (5 / 2))"
    by code_simp
  moreover have "executeOperation2 Divide (Finite False 10) (Finite False 4)
      = Some (Finite False 40)"
    by code_simp
  ultimately show ?thesis
    by (simp add: executeOperation_def executeOperation2_def)
qed

text \<open>
  Claim C3, as stated: where \<^verbatim>\<open>previousOperand\<close> or \<^verbatim>\<open>currentOperand\<close> is empty or a
  non-numeric string, or no operation is pending, the \<^verbatim>\<open>compute\<close> action returns the
  state unchanged.  It fails for a non-numeric string that begins with a number:
  \<^verbatim>\<open>parseFloat\<close> reads the prefix, so \<^verbatim>\<open>"12abc"\<close> and \<^verbatim>\<open>"3"\<close> with \<open>Add\<close> give \<^verbatim>\<open>"15"\<close>.
  Such an operand can be typed: \<open>5\<close>, \<open>/\<close>, \<open>0\<close>, \<open>=\<close>, \<open>5\<close> leaves \<^verbatim>\<open>"Infinity5"\<close>, and
  with \<open>+\<close>, \<open>1\<close>, \<open>=\<close> it is computed with as infinity.
\<close>

theorem compute_non_numeric_counterexample:
  "\<not> spec_numeric_string ''12abc''
   \<and> calculatorReducer
         \<lparr>currentOperand = ''3'', previousOperand = ''12abc'', operation = Some Add\<rparr>
         ComputeAction
       = Inr \<lparr>currentOperand = ''15'', previousOperand = [], operation = None\<rparr>
   \<and> calculatorReducer
         \<lparr>currentOperand = ''3'', previousOperand = ''12abc'', operation = Some Add\<rparr>
         ComputeAction
       \<noteq> Inr \<lparr>currentOperand = ''3'', previousOperand = ''12abc'', operation = Some Add\<rparr>
   \<and> \<not> spec_numeric_string ''Infinity5''
   \<and> dispatch DEFAULT_CALCULATOR_STATE
         [AppendNumberAction (Finite False 5), ChooseOperation Divide,
          AppendNumberAction (Finite False 0), ComputeAction,
          AppendNumberAction (Finite False 5), ChooseOperation Add,
          AppendNumberAction (Finite False 1)]
       = Inr \<lparr>currentOperand = ''1'', previousOperand = ''Infinity5'', operation = Some Add\<rparr>
   \<and> calculatorReducer
         \<lparr>currentOperand = ''1'', previousOperand = ''Infinity5'', operation = Some Add\<rparr>
         ComputeAction
       = Inr \<lparr>currentOperand = ''Infinity'', previousOperand = [], operation = None\<rparr>"
proof -
  have n1: "\<not> spec_numeric_string ''12abc''" by code_simp
  have n2: "\<not> spec_numeric_string ''Infinity5''" by code_simp
  have c1: "compute \<lparr>currentOperand = ''3'', previousOperand = ''12abc'', operation = Some Add\<rparr>
      = Inr \<lparr>currentOperand = ''15'', previousOperand = [], operation = None\<rparr>"
    by code_simp
  have c2: "compute \<lparr>currentOperand = ''1'', previousOperand = ''Infinity5'', operation = Some Add\<rparr>
      = Inr \<lparr>currentOperand = ''Infinity'', previousOperand = [], operation = None\<rparr>"
    by code_simp
  have c3: "compute \<lparr>currentOperand = ''0'', previousOperand = ''5'', operation = Some Divide\<rparr>
      = Inr \<lparr>currentOperand = ''Infinity'', previousOperand = [], operation = None\<rparr>"
    by code_simp
  have t: "toString (Finite False 5) = ''5''" "toString (Finite False 0) = ''0''"
    "toString (Finite False 1) = ''1''"
    by code_simp+
  have run: "dispatch DEFAULT_CALCULATOR_STATE
         [AppendNumberAction (Finite False 5), ChooseOperation Divide,
          AppendNumberAction (Finite False 0), ComputeAction,
          AppendNumberAction (Finite False 5), ChooseOperation Add,
          AppendNumberAction (Finite False 1)]
       = Inr \<lparr>currentOperand = ''1'', previousOperand = ''Infinity5'', operation = Some Add\<rparr>"
    by (simp add: reducer_cases t c3 DEFAULT_CALCULATOR_STATE_def del: toString.simps)
  from n1 n2 c1 c2 run show ?thesis
    by (simp add: reducer_compute)
qed

text \<open>
  Claim C3, amended.  The \<^verbatim>\<open>compute\<close> action returns the state unchanged exactly where
  \<^verbatim>\<open>parseFloat\<close> gives NaN for \<^verbatim>\<open>previousOperand\<close> or for \<^verbatim>\<open>currentOperand\<close>, or no
  operation is pending; otherwise it returns the state whose \<^verbatim>\<open>currentOperand\<close> is the
  string of the evaluator's result, with \<^verbatim>\<open>previousOperand\<close> empty and no operation.
  \<^verbatim>\<open>parseFloat\<close> gives NaN for a string \<open>str\<close> exactly where, after leading white space and
  an optional sign, it begins with neither a digit, nor a point and a digit, nor
  \<^verbatim>\<open>Infinity\<close>; the empty string is such, and no string that is numeric as a whole is.
\<close>

theorem compute_unchanged_iff_parse_failure:
  "(calculatorReducer state ComputeAction = Inr state
      \<longleftrightarrow> isNaN (parseFloat (previousOperand state))
          \<or> isNaN (parseFloat (currentOperand state)) \<or> operation state = None)
   \<and> (\<not> isNaN (parseFloat (previousOperand state))
        \<and> \<not> isNaN (parseFloat (currentOperand state)) \<and> operation state = Some op
     \<longrightarrow> (\<exists>result.
            executeOperation op (parseFloat (previousOperand state))
              (parseFloat (currentOperand state)) = Some result
            \<and> calculatorReducer state ComputeAction =
                Inr \<lparr>currentOperand = toString result, previousOperand = [],
                     operation = None\<rparr>))
   \<and> (isNaN (parseFloat str) \<longleftrightarrow> \<not> starts_literal (unsigned_part str))
   \<and> isNaN (parseFloat [])
   \<and> (spec_numeric_string str \<longrightarrow> \<not> isNaN (parseFloat str))"
proof -
  let ?fails = "isNaN (parseFloat (previousOperand state))
          \<or> isNaN (parseFloat (currentOperand state)) \<or> operation state = None"
  have result: "\<exists>result.
            executeOperation op' (parseFloat (previousOperand state))
              (parseFloat (currentOperand state)) = Some result
            \<and> compute state =
                Inr \<lparr>currentOperand = toString result, previousOperand = [],
                     operation = None\<rparr>"
    if "\<not> isNaN (parseFloat (previousOperand state))"
      and "\<not> isNaN (parseFloat (currentOperand state))" and "operation state = Some op'"
    for op'
  proof -
    obtain result where r: "executeOperation op' (parseFloat (previousOperand state))
              (parseFloat (currentOperand state)) = Some result"
      using executeOperation_Some by blast
    with that have "compute state =
        Inr \<lparr>currentOperand = toString result, previousOperand = [], operation = None\<rparr>"
      by (intro compute_result)
    with r show ?thesis by blast
  qed
  have "compute state = Inr state \<longleftrightarrow> ?fails"
  proof
    assume same: "compute state = Inr state"
    show ?fails
    proof (rule ccontr)
      assume "\<not> ?fails"
      then obtain op' where "\<not> isNaN (parseFloat (previousOperand state))"
        "\<not> isNaN (parseFloat (currentOperand state))" "operation state = Some op'"
        by auto
      from result [OF this] same \<open>operation state = Some op'\<close> show False
        by auto
    qed
  next
    assume ?fails
    then show "compute state = Inr state" by (rule compute_unchanged)
  qed
  moreover have "isNaN (parseFloat str) \<longleftrightarrow> \<not> starts_literal (unsigned_part str)"
    by (simp add: isNaN_def parseFloat_NaN_iff)
  moreover have "isNaN (parseFloat [])"
    by (simp add: parseFloat_def unsigned_literal_def isNaN_def)
  moreover have "\<not> isNaN (parseFloat str)" if "spec_numeric_string str"
    using spec_numeric_starts [OF that] by (simp add: isNaN_def parseFloat_NaN_iff)
  ultimately show ?thesis
    using result [of op] by (simp only: reducer_compute) blast
qed

text \<open>
  The four cases at concrete states: an empty \<^verbatim>\<open>previousOperand\<close>, a \<^verbatim>\<open>currentOperand\<close>
  of letters, no operation, and \<open>6 / 3\<close> with both operands numeric.
\<close>

theorem compute_unchanged_iff_parse_failure_witness:
  "calculatorReducer \<lparr>currentOperand = ''3'', previousOperand = [], operation = Some Divide\<rparr>
       ComputeAction
     = Inr \<lparr>currentOperand = ''3'', previousOperand = [], operation = Some Divide\<rparr>
   \<and> calculatorReducer
       \<lparr>currentOperand = ''abc'', previousOperand = ''6'', operation = Some Divide\<rparr>
       ComputeAction
     = Inr \<lparr>currentOperand = ''abc'', previousOperand = ''6'', operation = Some Divide\<rparr>
   \<and> calculatorReducer \<lparr>currentOperand = ''3'', previousOperand = ''6'', operation = None\<rparr>
       ComputeAction
     = Inr \<lparr>currentOperand = ''3'', previousOperand = ''6'', operation = None\<rparr>
   \<and> spec_numeric_string ''6'' \<and> spec_numeric_string ''3''
   \<and> calculatorReducer
       \<lparr>currentOperand = ''3'', previousOperand = ''6'', operation = Some Divide\<rparr>
       ComputeAction
     = Inr \<lparr>currentOperand = ''2'', previousOperand = [], operation = None\<rparr>"
proof -
  let ?s1 = "\<lparr>currentOperand = ''3'', previousOperand = [], operation = Some Divide\<rparr>"
  let ?s2 = "\<lparr>currentOperand = ''abc'', previousOperand = ''6'', operation = Some Divide\<rparr>"
  let ?s3 = "\<lparr>currentOperand = ''3'', previousOperand = ''6'', operation = None\<rparr>"
  let ?s4 = "\<lparr>currentOperand = ''3'', previousOperand = ''6'', operation = Some Divide\<rparr>"
  note claim = compute_unchanged_iff_parse_failure
  have p6: "parseFloat ''6'' = Finite False 6" by code_simp
  have p3: "parseFloat ''3'' = Finite False 3" by code_simp
  have ev: "executeOperation Divide (Finite False 6) (Finite False 3) = Some (Finite False 2)"
    by code_simp
  have ts: "toString (Finite False 2) = ''2''" by code_simp
  have n6: "spec_numeric_string ''6''" by code_simp
  have n3: "spec_numeric_string ''3''" by code_simp
  from claim [of ?s1 Divide "[]"] have "isNaN (parseFloat [])"
    by blast
  then have "isNaN (parseFloat (previousOperand ?s1))"
    by simp
  with claim [of ?s1 Divide "[]"] have w1: "calculatorReducer ?s1 ComputeAction = Inr ?s1"
    by blast
  have "\<not> starts_literal (unsigned_part ''abc'')"
    by code_simp
  with claim [of ?s2 Divide "''abc''"] have "isNaN (parseFloat ''abc'')"
    by blast
  then have "isNaN (parseFloat (currentOperand ?s2))"
    by simp
  with claim [of ?s2 Divide "[]"] have w2: "calculatorReducer ?s2 ComputeAction = Inr ?s2"
    by blast
  have "operation ?s3 = None"
    by simp
  with claim [of ?s3 Divide "[]"] have w3: "calculatorReducer ?s3 ComputeAction = Inr ?s3"
    by blast
  from n6 claim [of ?s4 Divide "''6''"] have "\<not> isNaN (parseFloat ''6'')"
    by blast
  then have a6: "\<not> isNaN (parseFloat (previousOperand ?s4))"
    by simp
  from n3 claim [of ?s4 Divide "''3''"] have "\<not> isNaN (parseFloat ''3'')"
    by blast
  then have a3: "\<not> isNaN (parseFloat (currentOperand ?s4))"
    by simp
  have "operation ?s4 = Some Divide"
    by simp
  with a6 a3 obtain result where
    "executeOperation Divide (parseFloat (previousOperand ?s4))
       (parseFloat (currentOperand ?s4)) = Some result"
    and c: "calculatorReducer ?s4 ComputeAction =
      Inr \<lparr>currentOperand = toString result, previousOperand = [], operation = None\<rparr>"
    using claim [of ?s4 Divide "[]"] by blast
  then have "result = Finite False 2"
    by (simp add: p6 p3 ev)
  with c ts have w4: "calculatorReducer ?s4 ComputeAction =
      Inr \<lparr>currentOperand = ''2'', previousOperand = [], operation = None\<rparr>"
    by (simp del: toString.simps)
  from w1 w2 w3 n6 n3 w4 show ?thesis by (intro conjI)
qed

text \<open>
  Claim C4.  From \<^verbatim>\<open>{previous: "", current: "5"}\<close> with no operation, choosing \<open>Add\<close>,
  appending \<open>3\<close> and choosing \<open>Subtract\<close> leads through \<^verbatim>\<open>{previous: "5", current: ""}\<close>
  with \<open>Add\<close> and \<^verbatim>\<open>{previous: "5", current: "3"}\<close> with \<open>Add\<close> to
  \<^verbatim>\<open>{previous: "8", current: ""}\<close> with \<open>Subtract\<close>: the nested \<^verbatim>\<open>compute\<close> gives
  \<open>5 + 3 = 8\<close>.
\<close>

theorem chained_operation:
  "calculatorReducer \<lparr>currentOperand = ''5'', previousOperand = [], operation = None\<rparr>
       (ChooseOperation Add)
     = Inr \<lparr>currentOperand = [], previousOperand = ''5'', operation = Some Add\<rparr>
   \<and> calculatorReducer \<lparr>currentOperand = [], previousOperand = ''5'', operation = Some Add\<rparr>
       (AppendNumberAction (Finite False 3))
     = Inr \<lparr>currentOperand = ''3'', previousOperand = ''5'', operation = Some Add\<rparr>
   \<and> calculatorReducer \<lparr>currentOperand = ''3'', previousOperand = ''5'', operation = Some Add\<rparr>
       (ChooseOperation Subtract)
     = Inr \<lparr>currentOperand = [], previousOperand = ''8'', operation = Some Subtract\<rparr>
   \<and> compute \<lparr>currentOperand = ''3'', previousOperand = ''5'', operation = Some Add\<rparr>
     = Inr \<lparr>currentOperand = ''8'', previousOperand = [], operation = None\<rparr>
   \<and> dispatch \<lparr>currentOperand = ''5'', previousOperand = [], operation = None\<rparr>
       [ChooseOperation Add, AppendNumberAction (Finite False 3), ChooseOperation Subtract]
     = Inr \<lparr>currentOperand = [], previousOperand = ''8'', operation = Some Subtract\<rparr>"
proof -
  have c: "compute \<lparr>currentOperand = ''3'', previousOperand = ''5'', operation = Some Add\<rparr>
     = Inr \<lparr>currentOperand = ''8'', previousOperand = [], operation = None\<rparr>"
    by code_simp
  have t3: "toString (Finite False 3) = ''3''" by code_simp
  have s1: "calculatorReducer \<lparr>currentOperand = ''5'', previousOperand = [], operation = None\<rparr>
       (ChooseOperation Add)
     = Inr \<lparr>currentOperand = [], previousOperand = ''5'', operation = Some Add\<rparr>"
    by (simp add: reducer_chooseOperation)
  have s2: "calculatorReducer \<lparr>currentOperand = [], previousOperand = ''5'', operation = Some Add\<rparr>
       (AppendNumberAction (Finite False 3))
     = Inr \<lparr>currentOperand = ''3'', previousOperand = ''5'', operation = Some Add\<rparr>"
    by (simp add: reducer_appendNumber t3 del: toString.simps)
  have s3: "calculatorReducer \<lparr>currentOperand = ''3'', previousOperand = ''5'', operation = Some Add\<rparr>
       (ChooseOperation Subtract)
     = Inr \<lparr>currentOperand = [], previousOperand = ''8'', operation = Some Subtract\<rparr>"
    by (simp add: reducer_chooseOperation c)
  from s1 s2 s3 c show ?thesis by simp
qed

text \<open>
  Claim C5, as stated: in every state reached from the default state the operation is
  present if and only if \<^verbatim>\<open>previousOperand\<close> is not empty.  It fails after one action:
  choosing an operation in the default state sets the operation and moves the empty
  \<^verbatim>\<open>currentOperand\<close> into \<^verbatim>\<open>previousOperand\<close>.
\<close>

theorem operation_iff_previous_counterexample:
  "dispatch DEFAULT_CALCULATOR_STATE [ChooseOperation Add]
     = Inr \<lparr>currentOperand = [], previousOperand = [], operation = Some Add\<rparr>
   \<and> \<not> (operation \<lparr>currentOperand = [], previousOperand = [], operation = Some Add\<rparr> \<noteq> None
          \<longleftrightarrow> previousOperand \<lparr>currentOperand = [], previousOperand = [],
                 operation = Some Add\<rparr> \<noteq> [])"
  by (simp add: reducer_chooseOperation DEFAULT_CALCULATOR_STATE_def)

text \<open>
  Claim C5, amended.  In every state reached from the default state a non-empty
  \<^verbatim>\<open>previousOperand\<close> comes with an operation; and the equivalence holds in the runs
  where no operation is chosen while \<^verbatim>\<open>currentOperand\<close> is empty.
\<close>

theorem pending_operation_invariant:
  assumes "dispatch DEFAULT_CALCULATOR_STATE actions = Inr state"
  shows "(previousOperand state \<noteq> [] \<longrightarrow> operation state \<noteq> None)
         \<and> (operand_entered DEFAULT_CALCULATOR_STATE actions
              \<longrightarrow> (operation state \<noteq> None \<longleftrightarrow> previousOperand state \<noteq> []))"
proof -
  have "previousOperand state \<noteq> [] \<longrightarrow> operation state \<noteq> None"
  proof (rule dispatch_invariant
      [where P = "\<lambda>s. previousOperand s \<noteq> [] \<longrightarrow> operation s \<noteq> None" and Q = "\<lambda>a. True"])
    show "previousOperand DEFAULT_CALCULATOR_STATE \<noteq> []
        \<longrightarrow> operation DEFAULT_CALCULATOR_STATE \<noteq> None"
      by (simp add: DEFAULT_CALCULATOR_STATE_def)
    show "\<forall>a \<in> set actions. True" by simp
    show "dispatch DEFAULT_CALCULATOR_STATE actions = Inr state" by (rule assms)
  qed (rule reducer_keeps_pending)
  moreover have "operation state \<noteq> None \<longleftrightarrow> previousOperand state \<noteq> []"
    if "operand_entered DEFAULT_CALCULATOR_STATE actions"
    using that assms
    by (intro operand_entered_equivalence [of DEFAULT_CALCULATOR_STATE actions state])
      (simp_all add: DEFAULT_CALCULATOR_STATE_def)
  ultimately show ?thesis by blast
qed

text \<open>The run \<open>5\<close>, \<open>+\<close>: an operand was entered, and \<open>5\<close> is pending with \<open>Add\<close>.\<close>

theorem pending_operation_invariant_witness:
  "dispatch DEFAULT_CALCULATOR_STATE [AppendNumberAction (Finite False 5), ChooseOperation Add]
     = Inr \<lparr>currentOperand = [], previousOperand = ''5'', operation = Some Add\<rparr>
   \<and> operand_entered DEFAULT_CALCULATOR_STATE
       [AppendNumberAction (Finite False 5), ChooseOperation Add]
   \<and> previousOperand \<lparr>currentOperand = [], previousOperand = ''5'', operation = Some Add\<rparr> \<noteq> []
   \<and> operation \<lparr>currentOperand = [], previousOperand = ''5'', operation = Some Add\<rparr> \<noteq> None"
proof -
  let ?as = "[AppendNumberAction (Finite False 5), ChooseOperation Add]"
  let ?s = "\<lparr>currentOperand = [], previousOperand = ''5'', operation = Some Add\<rparr>"
  have t5: "toString (Finite False 5) = ''5''" by code_simp
  have run: "dispatch DEFAULT_CALCULATOR_STATE ?as = Inr ?s"
    by (simp add: reducer_appendNumber reducer_chooseOperation t5 DEFAULT_CALCULATOR_STATE_def
        del: toString.simps)
  have entered: "operand_entered DEFAULT_CALCULATOR_STATE ?as"
    by (simp add: reducer_appendNumber reducer_chooseOperation t5 DEFAULT_CALCULATOR_STATE_def
        del: toString.simps)
  have ne: "previousOperand ?s \<noteq> []" by simp
  from pending_operation_invariant [OF run] entered
  have "operation ?s \<noteq> None \<longleftrightarrow> previousOperand ?s \<noteq> []"
    by blast
  with ne have "operation ?s \<noteq> None"
    by blast
  with run entered ne show ?thesis by (intro conjI)
qed

text \<open>
  Claim C6.  In a state with an operation present whose \<^verbatim>\<open>currentOperand\<close> does not parse
  as a number, choosing an operation \<open>op\<close> gives the state with \<^verbatim>\<open>previousOperand\<close> the old
  \<^verbatim>\<open>currentOperand\<close>, an empty \<^verbatim>\<open>currentOperand\<close> and the operation \<open>op\<close>.  The old
  \<^verbatim>\<open>previousOperand\<close> has no part in the result: any other value in its place gives the
  same state.
\<close>

theorem chooseOperation_discards_previous:
  assumes "operation state = Some pending"
    and "isNaN (parseFloat (currentOperand state))"
  shows "calculatorReducer state (ChooseOperation op)
           = Inr \<lparr>currentOperand = [], previousOperand = currentOperand state,
                  operation = Some op\<rparr>
         \<and> calculatorReducer (state\<lparr>previousOperand := other\<rparr>) (ChooseOperation op)
           = calculatorReducer state (ChooseOperation op)"
proof -
  have "compute state = Inr state"
    using assms(2) by (intro compute_unchanged) simp
  moreover have "compute (state\<lparr>previousOperand := other\<rparr>) = Inr (state\<lparr>previousOperand := other\<rparr>)"
    using assms(2) by (intro compute_unchanged) simp
  ultimately show ?thesis
    using assms(1) enum_value_truthy [of pending]
    by (simp add: reducer_chooseOperation del: truthy.simps)
qed

text \<open>Two operations in a row: \<open>5\<close>, \<open>+\<close>, \<open>-\<close> loses the \<open>5\<close>.\<close>

theorem chooseOperation_discards_previous_witness:
  "calculatorReducer \<lparr>currentOperand = [], previousOperand = ''5'', operation = Some Add\<rparr>
       (ChooseOperation Subtract)
     = Inr \<lparr>currentOperand = [], previousOperand = [], operation = Some Subtract\<rparr>
   \<and> calculatorReducer \<lparr>currentOperand = [], previousOperand = ''7'', operation = Some Add\<rparr>
       (ChooseOperation Subtract)
     = calculatorReducer \<lparr>currentOperand = [], previousOperand = ''5'', operation = Some Add\<rparr>
       (ChooseOperation Subtract)"
proof -
  let ?s = "\<lparr>currentOperand = [], previousOperand = ''5'', operation = Some Add\<rparr>"
  have op: "operation ?s = Some Add" by simp
  have nan: "isNaN (parseFloat (currentOperand ?s))"
    by (simp add: parseFloat_def unsigned_literal_def isNaN_def)
  from chooseOperation_discards_previous [OF op nan, of Subtract "''7''"]
  show ?thesis by simp
qed

text \<open>
  Claim C7.  In every state reached from the default state by actions whose digits are
  \<open>0\<close> to \<open>9\<close>, \<^verbatim>\<open>currentOperand\<close> has at most one decimal point.  \<^verbatim>\<open>addDecimalPoint\<close>
  appends the point only where there is none, so in any state \<open>s\<close> two of them in a row
  give what one gives.
\<close>

theorem at_most_one_decimal_point:
  assumes "\<forall>a \<in> set actions. single_digit a"
    and "dispatch DEFAULT_CALCULATOR_STATE actions = Inr state"
  shows "count_list (currentOperand state) CHR ''.'' \<le> 1
         \<and> calculatorReducer s AddDecimalPointAction
            = Inr (s\<lparr>currentOperand :=
                      (if CHR ''.'' \<in> set (currentOperand s) then currentOperand s
                       else currentOperand s @ ''.'')\<rparr>)
         \<and> dispatch s [AddDecimalPointAction, AddDecimalPointAction]
            = dispatch s [AddDecimalPointAction]"
proof (intro conjI)
  show "count_list (currentOperand state) CHR ''.'' \<le> 1"
  proof (rule dispatch_invariant
      [where P = "\<lambda>s. count_list (currentOperand s) CHR ''.'' \<le> 1" and Q = single_digit])
    show "count_list (currentOperand DEFAULT_CALCULATOR_STATE) CHR ''.'' \<le> 1"
      by (simp add: DEFAULT_CALCULATOR_STATE_def)
    show "\<forall>a \<in> set actions. single_digit a" by (rule assms(1))
    show "dispatch DEFAULT_CALCULATOR_STATE actions = Inr state" by (rule assms(2))
  qed (rule reducer_keeps_one_dot)
  show "calculatorReducer s AddDecimalPointAction
            = Inr (s\<lparr>currentOperand :=
                      (if CHR ''.'' \<in> set (currentOperand s) then currentOperand s
                       else currentOperand s @ ''.'')\<rparr>)"
    by (rule reducer_addDecimalPoint)
  show "dispatch s [AddDecimalPointAction, AddDecimalPointAction]
            = dispatch s [AddDecimalPointAction]"
    by (simp add: reducer_addDecimalPoint)
qed

text \<open>The run \<open>1\<close>, \<open>2\<close>, point, point ends in \<^verbatim>\<open>"12."\<close>.\<close>

theorem at_most_one_decimal_point_witness:
  "dispatch DEFAULT_CALCULATOR_STATE
       [AppendNumberAction (Finite False 1), AppendNumberAction (Finite False 2),
        AddDecimalPointAction, AddDecimalPointAction]
     = Inr \<lparr>currentOperand = ''12.'', previousOperand = [], operation = None\<rparr>
   \<and> count_list ''12.'' CHR ''.'' \<le> 1
   \<and> dispatch \<lparr>currentOperand = ''12'', previousOperand = [], operation = None\<rparr>
       [AddDecimalPointAction, AddDecimalPointAction]
     = Inr \<lparr>currentOperand = ''12.'', previousOperand = [], operation = None\<rparr>"
proof -
  let ?as = "[AppendNumberAction (Finite False 1), AppendNumberAction (Finite False 2),
        AddDecimalPointAction, AddDecimalPointAction]"
  let ?t = "\<lparr>currentOperand = ''12.'', previousOperand = [], operation = None\<rparr>"
  let ?s = "\<lparr>currentOperand = ''12'', previousOperand = [], operation = None\<rparr>"
  have t1: "toString (Finite False 1) = ''1''" by code_simp
  have t2: "toString (Finite False 2) = ''2''" by code_simp
  have digits: "\<forall>a \<in> set ?as. single_digit a" by simp
  have run: "dispatch DEFAULT_CALCULATOR_STATE ?as = Inr ?t"
    by (simp add: reducer_appendNumber reducer_addDecimalPoint t1 t2
        DEFAULT_CALCULATOR_STATE_def del: toString.simps)
  have once: "dispatch ?s [AddDecimalPointAction] = Inr ?t"
    by (simp add: reducer_addDecimalPoint)
  note claim = at_most_one_decimal_point [OF digits run, of ?s]
  from claim have "count_list (currentOperand ?t) CHR ''.'' \<le> 1"
    by blast
  then have one: "count_list ''12.'' CHR ''.'' \<le> 1"
    by (simp only: CalculatorState.select_convs)
  from claim have "dispatch ?s [AddDecimalPointAction, AddDecimalPointAction]
      = dispatch ?s [AddDecimalPointAction]"
    by blast
  with once have twice: "dispatch ?s [AddDecimalPointAction, AddDecimalPointAction] = Inr ?t"
    by (simp only:)
  from run one twice show ?thesis by (intro conjI)
qed

text \<open>
  Claim C8.  In every state \<^verbatim>\<open>clear\<close> returns the default state: both operands empty, no
  operation.
\<close>

theorem clear_returns_default:
  "calculatorReducer state ClearAction = Inr DEFAULT_CALCULATOR_STATE
   \<and> DEFAULT_CALCULATOR_STATE
       = \<lparr>currentOperand = [], previousOperand = [], operation = None\<rparr>"
  by (simp add: reducer_clear DEFAULT_CALCULATOR_STATE_def)

text \<open>
  Claim C9.  Division by zero is no error: \<open>5 / 0\<close> is positive infinity and \<open>0 / 0\<close> is
  NaN, and \<^verbatim>\<open>compute\<close> stores their strings \<^verbatim>\<open>"Infinity"\<close> and \<^verbatim>\<open>"NaN"\<close> in
  \<^verbatim>\<open>currentOperand\<close>.
\<close>

theorem divide_by_zero_sentinels:
  "executeOperation Divide (Finite False 5) (Finite False 0) = Some (Infinity False)
   \<and> executeOperation Divide (Finite False 0) (Finite False 0) = Some NaN
   \<and> compute \<lparr>currentOperand = ''0'', previousOperand = ''5'', operation = Some Divide\<rparr>
       = Inr \<lparr>currentOperand = ''Infinity'', previousOperand = [], operation = None\<rparr>
   \<and> compute \<lparr>currentOperand = ''0'', previousOperand = ''0'', operation = Some Divide\<rparr>
       = Inr \<lparr>currentOperand = ''NaN'', previousOperand = [], operation = None\<rparr>
   \<and> calculatorReducer
         \<lparr>currentOperand = ''0'', previousOperand = ''5'', operation = Some Divide\<rparr>
         ComputeAction
       = Inr \<lparr>currentOperand = ''Infinity'', previousOperand = [], operation = None\<rparr>
   \<and> calculatorReducer
         \<lparr>currentOperand = ''0'', previousOperand = ''0'', operation = Some Divide\<rparr>
         ComputeAction
       = Inr \<lparr>currentOperand = ''NaN'', previousOperand = [], operation = None\<rparr>"
proof -
  have inf: "executeOperation Divide (Finite False 5) (Finite False 0) = Some (Infinity False)"
    by (simp add: executeOperation_def)
  have nan: "executeOperation Divide (Finite False 0) (Finite False 0) = Some NaN"
    by (simp add: executeOperation_def)
  have c5: "compute \<lparr>currentOperand = ''0'', previousOperand = ''5'', operation = Some Divide\<rparr>
       = Inr \<lparr>currentOperand = ''Infinity'', previousOperand = [], operation = None\<rparr>"
    by code_simp
  have c0: "compute \<lparr>currentOperand = ''0'', previousOperand = ''0'', operation = Some Divide\<rparr>
       = Inr \<lparr>currentOperand = ''NaN'', previousOperand = [], operation = None\<rparr>"
    by code_simp
  from inf nan c5 c0 show ?thesis
    by (simp only: reducer_compute)
qed

text \<open>
  Claim C10.  For every state and every action the reducer returns a state: no
  \<^verbatim>\<open>switch\<close> is left without a matching case, neither on the action's type nor on the
  operation in the evaluator, and nothing is thrown in \<^verbatim>\<open>compute\<close>.
\<close>

theorem calculatorReducer_total:
  "(\<exists>state'. calculatorReducer state action = Inr state')
   \<and> (\<exists>result. executeOperation op a b = Some result)
   \<and> (\<exists>state'. compute state = Inr state')"
proof -
  have c: "\<exists>state'. compute s = Inr state'" for s
    by (cases s rule: compute_cases) auto
  have "\<exists>state'. calculatorReducer state action = Inr state'"
  proof (cases action)
    case (ChooseOperation x)
    then show ?thesis
      using c [of state] by (auto simp: reducer_chooseOperation)
  next
    case ComputeAction
    then show ?thesis using c [of state] by (simp add: reducer_compute)
  qed (simp_all add: reducer_cases)
  with c executeOperation_Some show ?thesis by blast
qed

end
